theory Spec2Isabelle
  imports Complex_Main "HOL-Library.Sublist"
begin

section \<open>JavaScript values as the webhook handler sees them\<close>

text \<open>
  The handler of \<^verbatim>\<open>webhook-handler.http.ts\<close> works on the value that \<^verbatim>\<open>JSON.parse\<close>
  returns. A JavaScript number is an IEEE double: a finite value (every finite double is a
  rational), one of the two infinities (\<^verbatim>\<open>JSON.parse("1e999")\<close> is \<^verbatim>\<open>Infinity\<close>) or NaN.
  Strings are lists of characters. An object is the list of its own properties; a property
  is looked up by name.
\<close>

datatype jsnumber = Finite rat | PosInfinity | NegInfinity | NaN

datatype json =
    JNull
  | JBoolean bool
  | JNumber jsnumber
  | JString string
  | JArray "json list"
  | JObject "(string \<times> json) list"

text \<open>
  A member read that finds nothing gives \<^verbatim>\<open>undefined\<close>, which is \<open>None\<close> here.
  \<^verbatim>\<open>typeof\<close> and the truthiness test of \<^verbatim>\<open>!x\<close> follow ECMAScript.
\<close>

fun typeof :: "json option \<Rightarrow> string" where
  "typeof None = ''undefined''"
| "typeof (Some JNull) = ''object''"
| "typeof (Some (JBoolean b)) = ''boolean''"
| "typeof (Some (JNumber n)) = ''number''"
| "typeof (Some (JString s)) = ''string''"
| "typeof (Some (JArray xs)) = ''object''"
| "typeof (Some (JObject kvs)) = ''object''"

fun truthy :: "json option \<Rightarrow> bool" where
  "truthy None = False"
| "truthy (Some JNull) = False"
| "truthy (Some (JBoolean b)) = b"
| "truthy (Some (JNumber n)) = (n \<noteq> Finite 0 \<and> n \<noteq> NaN)"
| "truthy (Some (JString s)) = (s \<noteq> [])"
| "truthy (Some (JArray xs)) = True"
| "truthy (Some (JObject kvs)) = True"

text \<open>
  \<^verbatim>\<open>v.name\<close>. The handler reads the members \<^verbatim>\<open>action\<close>, \<^verbatim>\<open>pull_request\<close>,
  \<^verbatim>\<open>repository\<close>, \<^verbatim>\<open>number\<close>, \<^verbatim>\<open>sender\<close>, \<^verbatim>\<open>login\<close>, \<^verbatim>\<open>type\<close>, \<^verbatim>\<open>id\<close> and
  \<^verbatim>\<open>full_name\<close> only: none of them is inherited from a prototype, so on an array or a
  primitive the read gives \<^verbatim>\<open>undefined\<close>. A read on \<^verbatim>\<open>null\<close> or \<^verbatim>\<open>undefined\<close> would throw a
  TypeError; every read of the source stands behind a test that the value is a truthy
  object, so that case is never evaluated.
\<close>

fun getProperty :: "json option \<Rightarrow> string \<Rightarrow> json option" where
  "getProperty (Some (JObject kvs)) name = map_of kvs name"
| "getProperty v name = None"

subsection \<open>String methods\<close>

text \<open>\<^verbatim>\<open>String.prototype.endsWith\<close>: the last \<open>length t\<close> characters of \<open>s\<close> are \<open>t\<close>.\<close>

definition endsWith :: "string \<Rightarrow> string \<Rightarrow> bool" where
  "endsWith s t =
     (if length s < length t then False else drop (length s - length t) s = t)"

text \<open>\<^verbatim>\<open>String.prototype.includes\<close>: \<open>t\<close> occurs in \<open>s\<close> at some position.\<close>

fun stringIncludes :: "string \<Rightarrow> string \<Rightarrow> bool" where
  "stringIncludes [] t = (t = [])"
| "stringIncludes (c # cs) t = (take (length t) (c # cs) = t \<or> stringIncludes cs t)"

text \<open>\<^verbatim>\<open>Array.prototype.join\<close> on an array of strings.\<close>

fun join :: "string list \<Rightarrow> string \<Rightarrow> string" where
  "join [] sep = []"
| "join [x] sep = x"
| "join (x # y # ys) sep = x @ sep @ join (y # ys) sep"

section \<open>Bot detection\<close>

record GitHubUser =
  user_login :: string
  user_type :: string
  user_id :: jsnumber

definition isBot :: "GitHubUser \<Rightarrow> bool" where
  "isBot user =
     (if user_type user = ''Bot'' then True
      else if endsWith (user_login user) ''[bot]'' then True
      else False)"

section \<open>Comment generation\<close>

definition generateReviewComment :: string where
  "generateReviewComment =
     join [''@coderabbitai review'', ''/gemini review'', ''@cubic-dev-ai review'',
           ''@greptile review''] ''\<newline>''"

section \<open>Errors\<close>

text \<open>
  The three error classes of the source carry a message, a status code and an error code.
  \<open>NativeError\<close> stands for an error of the runtime (SyntaxError, TypeError, RangeError,
  AbortError), with its name and message.
\<close>

datatype js_error =
    WebhookError (message: string) (statusCode: nat) (errorCode: string)
  | GitHubApiError (message: string) (statusCode: nat) (errorCode: string)
  | ConfigurationError (message: string) (statusCode: nat) (errorCode: string)
  | NativeError (errorName: string) (message: string)

fun error_name :: "js_error \<Rightarrow> string" where
  "error_name (WebhookError m s c) = ''WebhookError''"
| "error_name (GitHubApiError m s c) = ''GitHubApiError''"
| "error_name (ConfigurationError m s c) = ''ConfigurationError''"
| "error_name (NativeError n m) = n"

section \<open>The runtime\<close>

text \<open>
  What the handler takes from its host: the environment variables (\<^verbatim>\<open>Deno.env.get\<close>), the
  network (\<^verbatim>\<open>fetch\<close>), \<^verbatim>\<open>JSON.parse\<close> (\<open>Inl\<close> is the message of the SyntaxError it throws),
  \<^verbatim>\<open>JSON.stringify\<close>, the conversion of a value that is not a string inside a template
  literal, and the clock (\<^verbatim>\<open>new Date().toISOString()\<close>).
\<close>

record fetch_request =
  url :: string
  fetch_method :: string
  fetch_headers :: "(string \<times> string) list"
  fetch_body :: string

text \<open>
  \<^verbatim>\<open>fetch\<close> either resolves to a response with its status, its status text and the
  outcome of \<^verbatim>\<open>response.text()\<close> (the body, or \<open>Inl\<close> the name and message of the error
  when the body cannot be read), or rejects with an error (its name and message).
\<close>

datatype fetch_outcome =
    Responded nat string "(string \<times> string) + string"
  | Rejected string string

record runtime =
  env_get :: "string \<Rightarrow> string option"
  fetch :: "fetch_request \<Rightarrow> fetch_outcome"
  JSON_parse :: "string \<Rightarrow> string + json"
  JSON_stringify :: "json \<Rightarrow> string"
  ToString :: "json option \<Rightarrow> string"
  toISOString :: string

text \<open>A value inside a template literal: a string stands for itself.\<close>

definition template :: "runtime \<Rightarrow> json option \<Rightarrow> string" where
  "template rt v = (case v of Some (JString s) \<Rightarrow> s | _ \<Rightarrow> ToString rt v)"

section \<open>Responses\<close>

datatype response_body =
    ErrorResponse string string string
  | SuccessResponse string string

record response =
  resp_status :: nat
  resp_headers :: "(string \<times> string) list"
  resp_body :: response_body

text \<open>
  \<^verbatim>\<open>new Response(body, { status, headers })\<close> throws a RangeError unless the status is
  between 200 and 599. The body is the object handed to \<^verbatim>\<open>JSON.stringify\<close>:
  \<open>ErrorResponse error message timestamp\<close> or \<open>SuccessResponse message timestamp\<close> (whose
  field \<^verbatim>\<open>success\<close> is true).
\<close>

definition new_Response :: "response_body \<Rightarrow> nat \<Rightarrow> js_error + response" where
  "new_Response b st =
     (if 200 \<le> st \<and> st \<le> 599
      then Inr \<lparr>resp_status = st, resp_headers = [(''Content-Type'', ''application/json'')],
                resp_body = b\<rparr>
      else Inl (NativeError ''RangeError'' ''The status provided is outside the range [200, 599].''))"

definition createErrorResponse :: "runtime \<Rightarrow> string \<Rightarrow> string \<Rightarrow> nat \<Rightarrow> js_error + response" where
  "createErrorResponse rt error msg st = new_Response (ErrorResponse error msg (toISOString rt)) st"

definition createSuccessResponse :: "runtime \<Rightarrow> string \<Rightarrow> js_error + response" where
  "createSuccessResponse rt msg = new_Response (SuccessResponse msg (toISOString rt)) 200"

section \<open>GitHub API client\<close>

text \<open>The constructor reads the token; \<^verbatim>\<open>!token\<close> holds for a missing and for an empty one.\<close>

definition new_GitHubApiClient :: "runtime \<Rightarrow> js_error + string" where
  "new_GitHubApiClient rt =
     (case env_get rt ''GITHUB_TOKEN'' of
        None \<Rightarrow> Inl (ConfigurationError ''GitHub token not found in environment variables''
                        500 ''MISSING_GITHUB_TOKEN'')
      | Some token \<Rightarrow>
          if token = [] then Inl (ConfigurationError ''GitHub token not found in environment variables''
                        500 ''MISSING_GITHUB_TOKEN'')
          else Inr token)"

definition comment_url :: "runtime \<Rightarrow> json option \<Rightarrow> json option \<Rightarrow> string" where
  "comment_url rt repo issueNumber =
     ''https://api.github.com/repos/'' @ template rt repo @ ''/issues/''
       @ template rt issueNumber @ ''/comments''"

definition comment_request :: "runtime \<Rightarrow> string \<Rightarrow> json option \<Rightarrow> json option \<Rightarrow> string \<Rightarrow> fetch_request" where
  "comment_request rt token repo issueNumber body =
     \<lparr>url = comment_url rt repo issueNumber,
      fetch_method = ''POST'',
      fetch_headers = [(''Authorization'', ''Bearer '' @ token),
                       (''Accept'', ''application/vnd.github.v3+json''),
                       (''Content-Type'', ''application/json''),
                       (''User-Agent'', ''PR-Bot-Reviewer/1.0'')],
      fetch_body = JSON_stringify rt (JObject [(''body'', JString body)])\<rparr>"

text \<open>The \<^verbatim>\<open>try\<close> block of \<^verbatim>\<open>postComment\<close>: what it throws, or that it completes.\<close>

definition postComment_try :: "runtime \<Rightarrow> string \<Rightarrow> json option \<Rightarrow> json option \<Rightarrow> string \<Rightarrow> js_error + unit" where
  "postComment_try rt token repo issueNumber body =
     (case fetch rt (comment_request rt token repo issueNumber body) of
        Rejected n m \<Rightarrow> Inl (NativeError n m)
      | Responded st stText txt \<Rightarrow>
          if 200 \<le> st \<and> st \<le> 299 then Inr ()
          else (case txt of
                  Inl (n, m) \<Rightarrow> Inl (NativeError n m)
                | Inr errorText \<Rightarrow>
                    if st = 401 then
                      Inl (GitHubApiError
                        ''GitHub API authentication failed. Please check your GITHUB_TOKEN.''
                        401 ''GITHUB_AUTH_FAILED'')
                    else if st = 403 then
                      (if stringIncludes errorText ''rate limit'' then
                         Inl (GitHubApiError
                           ''GitHub API rate limit exceeded. Please try again later.''
                           429 ''GITHUB_RATE_LIMIT'')
                       else
                         Inl (GitHubApiError
                           ''GitHub API access forbidden. Please check repository permissions.''
                           403 ''GITHUB_FORBIDDEN''))
                    else if st = 404 then
                      Inl (GitHubApiError
                        (''Repository or pull request not found: '' @ template rt repo @ ''#''
                           @ template rt issueNumber)
                        404 ''GITHUB_NOT_FOUND'')
                    else if st \<ge> 500 then
                      Inl (GitHubApiError
                        ''GitHub API server error. Please try again later.''
                        503 ''GITHUB_SERVER_ERROR'')
                    else
                      Inl (GitHubApiError
                        (''GitHub API request failed: ''
                           @ template rt (Some (JNumber (Finite (of_nat st)))) @ '' '' @ stText
                           @ '' - '' @ errorText)
                        st ''GITHUB_API_REQUEST_FAILED'')))"

text \<open>The \<^verbatim>\<open>catch\<close> block: an error of the client's own is thrown again, any other one
  is a timeout or a network error.\<close>

definition postComment_catch :: "js_error \<Rightarrow> js_error" where
  "postComment_catch error =
     (case error of
        GitHubApiError m s c \<Rightarrow> error
      | _ \<Rightarrow>
          if error_name error = ''AbortError'' \<or> stringIncludes (message error) ''timeout'' then
            GitHubApiError ''GitHub API request timed out. Please try again later.''
              503 ''GITHUB_TIMEOUT''
          else
            GitHubApiError (''Network error while contacting GitHub API: '' @ message error)
              503 ''GITHUB_NETWORK_ERROR'')"

text \<open>\<open>postComment\<close> returns its outcome and the requests it sent, in order.\<close>

definition postComment :: "runtime \<Rightarrow> string \<Rightarrow> json option \<Rightarrow> json option \<Rightarrow> string \<Rightarrow> (js_error + unit) \<times> fetch_request list" where
  "postComment rt token repo issueNumber body =
     ((case postComment_try rt token repo issueNumber body of
         Inl error \<Rightarrow> Inl (postComment_catch error)
       | Inr u \<Rightarrow> Inr u),
      [comment_request rt token repo issueNumber body])"

definition postReviewComment :: "runtime \<Rightarrow> string \<Rightarrow> json option \<Rightarrow> json option \<Rightarrow> (js_error + unit) \<times> fetch_request list" where
  "postReviewComment rt token repo prNumber =
     postComment rt token repo prNumber generateReviewComment"

section \<open>Payload validation\<close>

definition validateWebhookPayload :: "json \<Rightarrow> js_error + unit" where
  "validateWebhookPayload payload =
     (let p = Some payload in
      if \<not> truthy p \<or> typeof p \<noteq> ''object'' then
        Inl (WebhookError ''Webhook payload must be a valid JSON object''
               400 ''INVALID_PAYLOAD_TYPE'')
      else if \<not> truthy (getProperty p ''action'')
              \<or> typeof (getProperty p ''action'') \<noteq> ''string'' then
        Inl (WebhookError ''Webhook payload missing required field: action''
               400 ''MISSING_ACTION'')
      else if \<not> truthy (getProperty p ''pull_request'')
              \<or> typeof (getProperty p ''pull_request'') \<noteq> ''object'' then
        Inl (WebhookError ''Webhook payload missing required field: pull_request''
               400 ''MISSING_PULL_REQUEST'')
      else if \<not> truthy (getProperty p ''repository'')
              \<or> typeof (getProperty p ''repository'') \<noteq> ''object'' then
        Inl (WebhookError ''Webhook payload missing required field: repository''
               400 ''MISSING_REPOSITORY'')
      else if typeof (getProperty p ''number'') \<noteq> ''number'' then
        Inl (WebhookError ''Webhook payload missing required field: number''
               400 ''MISSING_NUMBER'')
      else if \<not> truthy (getProperty p ''pull_request'')
              \<or> typeof (getProperty p ''pull_request'') \<noteq> ''object'' then
        Inl (WebhookError ''Webhook payload missing required field: pull_request''
               400 ''MISSING_PULL_REQUEST'')
      else
        (let sender = getProperty p ''sender'' in
         if \<not> truthy sender \<or> typeof sender \<noteq> ''object'' then
           Inl (WebhookError ''Webhook payload missing required field: sender''
                  400 ''MISSING_SENDER'')
         else if \<not> truthy (getProperty sender ''login'')
                 \<or> typeof (getProperty sender ''login'') \<noteq> ''string'' then
           Inl (WebhookError ''Sender missing required field: login''
                  400 ''MISSING_SENDER_LOGIN'')
         else if \<not> truthy (getProperty sender ''type'')
                 \<or> typeof (getProperty sender ''type'') \<noteq> ''string'' then
           Inl (WebhookError ''Sender missing required field: type''
                  400 ''MISSING_SENDER_TYPE'')
         else if typeof (getProperty sender ''id'') \<noteq> ''number'' then
           Inl (WebhookError ''Sender missing required field: id''
                  400 ''MISSING_SENDER_ID'')
         else if \<not> truthy (getProperty (getProperty p ''repository'') ''full_name'')
                 \<or> typeof (getProperty (getProperty p ''repository'') ''full_name'')
                      \<noteq> ''string'' then
           Inl (WebhookError ''Repository missing required field: full_name''
                  400 ''MISSING_REPO_FULL_NAME'')
         else Inr ()))"

section \<open>The HTTP handler\<close>

record request =
  req_method :: string
  req_content_type :: "string option"
  req_text :: string

text \<open>
  \<open>req_content_type\<close> is \<^verbatim>\<open>req.headers.get('content-type')\<close> (\<open>None\<close> for \<^verbatim>\<open>null\<close>) and
  \<open>req_text\<close> is \<^verbatim>\<open>await req.text()\<close>. \<^verbatim>\<open>String.prototype.trim\<close> strips white space and line
  terminators from both ends; among the characters of this model these are the following.
\<close>

definition isWhiteSpace :: "char \<Rightarrow> bool" where
  "isWhiteSpace c =
     (c \<in> {CHR 0x09, CHR 0x0A, CHR 0x0B, CHR 0x0C, CHR 0x0D, CHR 0x20, CHR 0xA0})"

definition trim :: "string \<Rightarrow> string" where
  "trim s = rev (dropWhile isWhiteSpace (rev (dropWhile isWhiteSpace s)))"

definition ALLOWED_ACTIONS :: "string list" where
  "ALLOWED_ACTIONS = [''opened'']"

text \<open>\<^verbatim>\<open>ALLOWED_ACTIONS.includes(v)\<close>: some element of the array is the value \<open>v\<close>.\<close>

definition arrayIncludes :: "string list \<Rightarrow> json option \<Rightarrow> bool" where
  "arrayIncludes xs v = (v \<in> set (map (\<lambda>s. Some (JString s)) xs))"

text \<open>The content-type test of the handler, as the condition under which it goes on.\<close>

definition contentTypeAccepted :: "string option \<Rightarrow> bool" where
  "contentTypeAccepted contentType =
     (case contentType of
        None \<Rightarrow> False
      | Some ct \<Rightarrow> \<not> (ct = [] \<or> \<not> stringIncludes ct ''application/json''))"

text \<open>
  Reading and parsing the body: the inner \<^verbatim>\<open>try\<close> throws EMPTY_PAYLOAD for a blank body,
  and its \<^verbatim>\<open>catch\<close> throws that error again and turns the SyntaxError of \<^verbatim>\<open>JSON.parse\<close>
  into INVALID_JSON.
\<close>

definition parseBody :: "runtime \<Rightarrow> request \<Rightarrow> js_error + json" where
  "parseBody rt req =
     (let body = req_text req in
      if trim body = [] then Inl (WebhookError ''Request body is empty'' 400 ''EMPTY_PAYLOAD'')
      else (case JSON_parse rt body of
              Inl parseMessage \<Rightarrow>
                Inl (WebhookError (''Failed to parse webhook payload as JSON: '' @ parseMessage)
                       400 ''INVALID_JSON'')
            | Inr payload \<Rightarrow> Inr payload))"

text \<open>
  The outer \<^verbatim>\<open>try\<close> block: the response it returns or the error it throws, with the
  outbound requests sent on the way. The calls of \<^verbatim>\<open>console.error\<close> write to the log only
  and are left out.
\<close>

definition handler_try :: "runtime \<Rightarrow> request \<Rightarrow> (js_error + response) \<times> fetch_request list" where
  "handler_try rt req =
     (if req_method req \<noteq> ''POST'' then
        (createErrorResponse rt ''METHOD_NOT_ALLOWED'' ''Only POST requests are supported'' 405, [])
      else if \<not> contentTypeAccepted (req_content_type req) then
        (createErrorResponse rt ''INVALID_CONTENT_TYPE'' ''Content-Type must be application/json''
           400, [])
      else
        (case parseBody rt req of
           Inl parseError \<Rightarrow> (Inl parseError, [])
         | Inr payload \<Rightarrow>
             (case validateWebhookPayload payload of
                Inl validationError \<Rightarrow> (Inl validationError, [])
              | Inr u \<Rightarrow>
                  (let p = Some payload in
                   if \<not> arrayIncludes ALLOWED_ACTIONS (getProperty p ''action'') then
                     (createSuccessResponse rt
                        (''Action '' @ [CHR 0x27] @ template rt (getProperty p ''action'')
                           @ [CHR 0x27] @ '' is not in the allow-list. No review comment posted.''),
                      [])
                   else
                     (case new_GitHubApiClient rt of
                        Inl configError \<Rightarrow> (Inl configError, [])
                      | Inr token \<Rightarrow>
                          (case postReviewComment rt token
                                  (getProperty (getProperty p ''repository'') ''full_name'')
                                  (getProperty p ''number'') of
                             (Inl commentError, calls) \<Rightarrow> (Inl commentError, calls)
                           | (Inr u', calls) \<Rightarrow>
                               (createSuccessResponse rt
                                  (''Review comment posted successfully for PR #''
                                     @ template rt (getProperty p ''number'') @ '' by ''
                                     @ template rt (getProperty (getProperty p ''sender'') ''login'')),
                                calls)))))))"

text \<open>The outer \<^verbatim>\<open>catch\<close> block.\<close>

definition handler_catch :: "runtime \<Rightarrow> js_error \<Rightarrow> js_error + response" where
  "handler_catch rt error =
     (case error of
        NativeError n m \<Rightarrow>
          createErrorResponse rt ''INTERNAL_ERROR''
            ''An unexpected error occurred while processing the webhook'' 500
      | _ \<Rightarrow> createErrorResponse rt (errorCode error) (message error) (statusCode error))"

text \<open>
  The handler: \<open>Inr\<close> is the response it resolves to, \<open>Inl\<close> an error that leaves it
  uncaught; the list holds the outbound requests it made.
\<close>

definition handler :: "runtime \<Rightarrow> request \<Rightarrow> (js_error + response) \<times> fetch_request list" where
  "handler rt req =
     (case handler_try rt req of
        (Inl error, calls) \<Rightarrow> (handler_catch rt error, calls)
      | (Inr r, calls) \<Rightarrow> (Inr r, calls))"

section \<open>The validation checks as a list\<close>

text \<open>
  The tests of \<open>validateWebhookPayload\<close> in the order of the source, each the condition of one
  \<^verbatim>\<open>if\<close> with the error it throws. The source tests \<^verbatim>\<open>pull_request\<close> a second time after
  \<^verbatim>\<open>number\<close>; the list holds that test once, at its first place.
\<close>

definition validationChecks :: "((json \<Rightarrow> bool) \<times> js_error) list" where
  "validationChecks =
     [(\<lambda>payload. \<not> truthy (Some payload) \<or> typeof (Some payload) \<noteq> ''object'',
       WebhookError ''Webhook payload must be a valid JSON object'' 400 ''INVALID_PAYLOAD_TYPE''),
      (\<lambda>payload. \<not> truthy (getProperty (Some payload) ''action'')
          \<or> typeof (getProperty (Some payload) ''action'') \<noteq> ''string'',
       WebhookError ''Webhook payload missing required field: action'' 400 ''MISSING_ACTION''),
      (\<lambda>payload. \<not> truthy (getProperty (Some payload) ''pull_request'')
          \<or> typeof (getProperty (Some payload) ''pull_request'') \<noteq> ''object'',
       WebhookError ''Webhook payload missing required field: pull_request''
         400 ''MISSING_PULL_REQUEST''),
      (\<lambda>payload. \<not> truthy (getProperty (Some payload) ''repository'')
          \<or> typeof (getProperty (Some payload) ''repository'') \<noteq> ''object'',
       WebhookError ''Webhook payload missing required field: repository''
         400 ''MISSING_REPOSITORY''),
      (\<lambda>payload. typeof (getProperty (Some payload) ''number'') \<noteq> ''number'',
       WebhookError ''Webhook payload missing required field: number'' 400 ''MISSING_NUMBER''),
      (\<lambda>payload. \<not> truthy (getProperty (Some payload) ''sender'')
          \<or> typeof (getProperty (Some payload) ''sender'') \<noteq> ''object'',
       WebhookError ''Webhook payload missing required field: sender'' 400 ''MISSING_SENDER''),
      (\<lambda>payload. \<not> truthy (getProperty (getProperty (Some payload) ''sender'') ''login'')
          \<or> typeof (getProperty (getProperty (Some payload) ''sender'') ''login'') \<noteq> ''string'',
       WebhookError ''Sender missing required field: login'' 400 ''MISSING_SENDER_LOGIN''),
      (\<lambda>payload. \<not> truthy (getProperty (getProperty (Some payload) ''sender'') ''type'')
          \<or> typeof (getProperty (getProperty (Some payload) ''sender'') ''type'') \<noteq> ''string'',
       WebhookError ''Sender missing required field: type'' 400 ''MISSING_SENDER_TYPE''),
      (\<lambda>payload. typeof (getProperty (getProperty (Some payload) ''sender'') ''id'') \<noteq> ''number'',
       WebhookError ''Sender missing required field: id'' 400 ''MISSING_SENDER_ID''),
      (\<lambda>payload. \<not> truthy (getProperty (getProperty (Some payload) ''repository'') ''full_name'')
          \<or> typeof (getProperty (getProperty (Some payload) ''repository'') ''full_name'')
               \<noteq> ''string'',
       WebhookError ''Repository missing required field: full_name''
         400 ''MISSING_REPO_FULL_NAME'')]"

text \<open>Running a list of checks: the error of the first one that fails.\<close>

fun firstFailure :: "((json \<Rightarrow> bool) \<times> js_error) list \<Rightarrow> json \<Rightarrow> js_error + unit" where
  "firstFailure [] payload = Inr ()"
| "firstFailure ((fails, error) # checks) payload =
     (if fails payload then Inl error else firstFailure checks payload)"

section \<open>Definitions that follow the specification\<close>

text \<open>
  The specification's invariant of an actor asks for an identifier that is a finite
  integer. This predicate is that requirement on a JavaScript number; the source has no
  counterpart of it.
\<close>

fun spec_isFiniteInteger :: "jsnumber \<Rightarrow> bool" where
  "spec_isFiniteInteger (Finite r) = (of_int \<lfloor>r\<rfloor> = r)"
| "spec_isFiniteInteger PosInfinity = False"
| "spec_isFiniteInteger NegInfinity = False"
| "spec_isFiniteInteger NaN = False"

text \<open>
  The specification's table for a downstream response that is not a success: the error
  code and the status it maps to, row by row. A body mentions rate limiting when it
  contains the text \<^verbatim>\<open>rate limit\<close>.
\<close>

definition spec_downstream_error_table :: "nat \<Rightarrow> string \<Rightarrow> string \<times> nat" where
  "spec_downstream_error_table st errorText =
     (if st = 401 then (''GITHUB_AUTH_FAILED'', 401)
      else if st = 403 \<and> stringIncludes errorText ''rate limit'' then (''GITHUB_RATE_LIMIT'', 429)
      else if st = 403 then (''GITHUB_FORBIDDEN'', 403)
      else if st = 404 then (''GITHUB_NOT_FOUND'', 404)
      else if st \<ge> 500 then (''GITHUB_SERVER_ERROR'', 503)
      else (''GITHUB_API_REQUEST_FAILED'', st))"

section \<open>Example inputs\<close>

text \<open>
  A pull-request event for PR 7 of \<^verbatim>\<open>octo/repo\<close> with the given action and sender, a
  runtime with the given token, parsed body and downstream outcome, and a POST request
  with the given content type. The runtime serialises an object with one string member
  (the only shape the client serialises: quotes around name and value, a newline written
  as backslash n) and renders the number 7, the only value that is not a string which the
  examples put into a template.
\<close>

definition example_quote :: "string \<Rightarrow> string" where
  "example_quote s =
     [CHR 0x22]
       @ concat (map (\<lambda>c. if c = CHR ''\<newline>'' then [CHR 0x5C, CHR ''n''] else [c]) s)
       @ [CHR 0x22]"

definition example_stringify :: "json \<Rightarrow> string" where
  "example_stringify v =
     (case v of
        JObject [(k, JString s)] \<Rightarrow> ''{'' @ example_quote k @ '':'' @ example_quote s @ ''}''
      | _ \<Rightarrow> ''null'')"

definition example_ToString :: "json option \<Rightarrow> string" where
  "example_ToString v = (if v = Some (JNumber (Finite 7)) then ''7'' else ''NaN'')"

definition example_payload :: "string \<Rightarrow> string \<Rightarrow> string \<Rightarrow> jsnumber \<Rightarrow> json" where
  "example_payload action login type ident =
     JObject [(''action'', JString action), (''number'', JNumber (Finite 7)),
              (''pull_request'', JObject []),
              (''repository'', JObject [(''full_name'', JString ''octo/repo'')]),
              (''sender'', JObject [(''login'', JString login), (''type'', JString type),
                                    (''id'', JNumber ident)])]"

definition example_runtime :: "string option \<Rightarrow> json \<Rightarrow> fetch_outcome \<Rightarrow> runtime" where
  "example_runtime token payload outcome =
     \<lparr>env_get = (\<lambda>name. if name = ''GITHUB_TOKEN'' then token else None),
      fetch = (\<lambda>r. outcome),
      JSON_parse = (\<lambda>s. Inr payload),
      JSON_stringify = example_stringify,
      ToString = example_ToString,
      toISOString = ''2024-01-01T12:00:00.000Z''\<rparr>"

definition example_request :: "string \<Rightarrow> request" where
  "example_request contentType =
     \<lparr>req_method = ''POST'', req_content_type = Some contentType, req_text = ''{...}''\<rparr>"

section \<open>Properties of the string methods\<close>

lemma endsWith_iff_append: "endsWith s t \<longleftrightarrow> (\<exists>p. s = p @ t)"
proof
  assume "endsWith s t"
  then have le: "length t \<le> length s" and d: "drop (length s - length t) s = t"
    by (auto simp: endsWith_def split: if_splits)
  have "s = take (length s - length t) s @ drop (length s - length t) s"
    by simp
  with d show "\<exists>p. s = p @ t"
    by metis
next
  assume "\<exists>p. s = p @ t"
  then obtain p where "s = p @ t" ..
  then show "endsWith s t"
    by (simp add: endsWith_def)
qed

lemma stringIncludes_iff_append: "stringIncludes s t \<longleftrightarrow> (\<exists>ps ss. s = ps @ t @ ss)"
proof (induction s)
  case Nil
  then show ?case by auto
next
  case (Cons c cs)
  have here: "take (length t) (c # cs) = t \<longleftrightarrow> (\<exists>ss. c # cs = t @ ss)"
    by (metis append_eq_conv_conj)
  have split: "(\<exists>ps ss. c # cs = ps @ t @ ss) \<longleftrightarrow>
      (\<exists>ss. c # cs = t @ ss) \<or> (\<exists>ps ss. cs = ps @ t @ ss)"
  proof
    assume "\<exists>ps ss. c # cs = ps @ t @ ss"
    then obtain ps ss where e: "c # cs = ps @ t @ ss" by blast
    show "(\<exists>ss. c # cs = t @ ss) \<or> (\<exists>ps ss. cs = ps @ t @ ss)"
    proof (cases ps)
      case Nil
      with e show ?thesis by auto
    next
      case (Cons q qs)
      with e have "cs = qs @ t @ ss" by simp
      then show ?thesis by blast
    qed
  next
    assume "(\<exists>ss. c # cs = t @ ss) \<or> (\<exists>ps ss. cs = ps @ t @ ss)"
    then show "\<exists>ps ss. c # cs = ps @ t @ ss"
    proof
      assume "\<exists>ss. c # cs = t @ ss"
      then obtain ss where "c # cs = [] @ t @ ss" by auto
      then show ?thesis by blast
    next
      assume "\<exists>ps ss. cs = ps @ t @ ss"
      then obtain ps ss where "c # cs = (c # ps) @ t @ ss" by auto
      then show ?thesis by blast
    qed
  qed
  show ?case
    using Cons.IH here split by simp
qed

section \<open>Properties of \<open>typeof\<close> and truthiness\<close>

lemma typeof_number_iff: "typeof v = ''number'' \<longleftrightarrow> (\<exists>n. v = Some (JNumber n))"
  by (cases v rule: typeof.cases) simp_all

lemma truthy_string_iff:
  "truthy v \<and> typeof v = ''string'' \<longleftrightarrow> (\<exists>s. v = Some (JString s) \<and> s \<noteq> [])"
  by (cases v rule: typeof.cases) auto

section \<open>Properties of the validator\<close>

lemma validate_eq_firstFailure:
  "validateWebhookPayload payload = firstFailure validationChecks payload"
  by (simp add: validateWebhookPayload_def validationChecks_def Let_def)

lemma firstFailure_nth:
  "i < length checks \<Longrightarrow> fst (checks ! i) payload \<Longrightarrow>
   \<forall>c \<in> set (take i checks). \<not> fst c payload \<Longrightarrow>
   firstFailure checks payload = Inl (snd (checks ! i))"
proof (induction checks arbitrary: i)
  case Nil
  then show ?case by simp
next
  case (Cons c checks)
  obtain fails error where c: "c = (fails, error)" by (cases c)
  show ?case
  proof (cases i)
    case 0
    with Cons.prems c show ?thesis by simp
  next
    case (Suc k)
    with Cons.prems c have "\<not> fails payload" by simp
    moreover from Suc Cons.prems have "firstFailure checks payload = Inl (snd (checks ! k))"
      by (intro Cons.IH) simp_all
    ultimately show ?thesis using c Suc by simp
  qed
qed

lemma only_failure_is_first:
  assumes "i < length checks"
    and "\<forall>j < length checks. j \<noteq> i \<longrightarrow> \<not> fst (checks ! j) payload"
  shows "\<forall>c \<in> set (take i checks). \<not> fst c payload"
proof
  fix c assume "c \<in> set (take i checks)"
  then obtain j where j: "j < length (take i checks)" and cj: "take i checks ! j = c"
    by (auto simp: in_set_conv_nth)
  from j assms(1) have "j < i" "j < length checks" by simp_all
  with assms(2) have "\<not> fst (checks ! j) payload" by simp
  with cj \<open>j < i\<close> show "\<not> fst c payload" by simp
qed

lemma checks_codes:
  "map (\<lambda>c. (errorCode (snd c), statusCode (snd c))) validationChecks =
     [(''INVALID_PAYLOAD_TYPE'', 400), (''MISSING_ACTION'', 400),
      (''MISSING_PULL_REQUEST'', 400), (''MISSING_REPOSITORY'', 400),
      (''MISSING_NUMBER'', 400), (''MISSING_SENDER'', 400),
      (''MISSING_SENDER_LOGIN'', 400), (''MISSING_SENDER_TYPE'', 400),
      (''MISSING_SENDER_ID'', 400), (''MISSING_REPO_FULL_NAME'', 400)]"
  by (simp add: validationChecks_def)

lemma validate_empty_object:
  "validateWebhookPayload (JObject []) =
     Inl (WebhookError ''Webhook payload missing required field: action'' 400 ''MISSING_ACTION'')"
  by (simp add: validateWebhookPayload_def)

lemma validate_example_payload:
  "action \<noteq> [] \<Longrightarrow> login \<noteq> [] \<Longrightarrow> type \<noteq> [] \<Longrightarrow>
   validateWebhookPayload (example_payload action login type ident) = Inr ()"
  by (simp add: validateWebhookPayload_def example_payload_def)

lemma validate_error:
  assumes "validateWebhookPayload payload = Inl e"
  shows "\<exists>m c. e = WebhookError m 400 c \<and> c \<noteq> ''INVALID_CONTENT_TYPE''"
  using assms
  by (simp add: validateWebhookPayload_def Let_def split: if_splits) blast+

section \<open>Properties of the API client\<close>

lemma postComment_try_not_ok:
  assumes "fetch rt (comment_request rt token repo issueNumber body)
             = Responded st stText (Inr errorText)"
    and "\<not> (200 \<le> st \<and> st \<le> 299)"
  shows "\<exists>m. postComment_try rt token repo issueNumber body =
           Inl (GitHubApiError m (snd (spec_downstream_error_table st errorText))
                  (fst (spec_downstream_error_table st errorText)))"
  using assms by (simp add: postComment_try_def spec_downstream_error_table_def)

lemma postComment_try_error:
  assumes "postComment_try rt token repo issueNumber body = Inl e"
  shows "(\<exists>n m. e = NativeError n m)
         \<or> (\<exists>m s c. e = GitHubApiError m s c \<and> c \<noteq> ''INVALID_CONTENT_TYPE'')"
  using assms
  by (auto simp: postComment_try_def split: fetch_outcome.splits if_splits sum.splits)

lemma postComment_catch_error:
  assumes "(\<exists>n m. e = NativeError n m)
         \<or> (\<exists>m s c. e = GitHubApiError m s c \<and> c \<noteq> ''INVALID_CONTENT_TYPE'')"
  shows "\<exists>m s c. postComment_catch e = GitHubApiError m s c \<and> c \<noteq> ''INVALID_CONTENT_TYPE''"
  using assms by (auto simp: postComment_catch_def)

lemma postComment_error:
  assumes "postComment rt token repo issueNumber body = (Inl e, calls)"
  shows "\<exists>m s c. e = GitHubApiError m s c \<and> c \<noteq> ''INVALID_CONTENT_TYPE''"
proof (cases "postComment_try rt token repo issueNumber body")
  case (Inl e')
  with assms have "e = postComment_catch e'"
    by (simp add: postComment_def)
  with postComment_catch_error [OF postComment_try_error [OF Inl]] show ?thesis
    by simp
next
  case (Inr u)
  with assms show ?thesis by (simp add: postComment_def)
qed

section \<open>Properties of the handler\<close>

lemma contentTypeAccepted_iff:
  "contentTypeAccepted contentType \<longleftrightarrow>
     (\<exists>ps ss. contentType = Some (ps @ ''application/json'' @ ss))"
proof (cases contentType)
  case None
  then show ?thesis by (simp add: contentTypeAccepted_def)
next
  case (Some ct)
  have "stringIncludes ct ''application/json'' \<Longrightarrow> ct \<noteq> []"
    by (cases ct) auto
  with Some show ?thesis
    by (auto simp: contentTypeAccepted_def stringIncludes_iff_append)
qed

lemma parseBody_error:
  assumes "parseBody rt req = Inl e"
  shows "\<exists>m c. e = WebhookError m 400 c \<and> c \<noteq> ''INVALID_CONTENT_TYPE''"
  using assms
  by (auto simp: parseBody_def Let_def split: if_splits sum.splits)

lemma arrayIncludes_allowed:
  "arrayIncludes ALLOWED_ACTIONS v \<longleftrightarrow> v = Some (JString ''opened'')"
  by (auto simp: arrayIncludes_def ALLOWED_ACTIONS_def)

text \<open>Once the method, the content type, the body and the payload have passed, the
  handler is at its allow-list test.\<close>

lemma handler_try_valid:
  assumes "req_method req = ''POST''"
    and "contentTypeAccepted (req_content_type req)"
    and "trim (req_text req) \<noteq> []"
    and "JSON_parse rt (req_text req) = Inr payload"
    and "validateWebhookPayload payload = Inr ()"
  shows "handler_try rt req =
     (if \<not> arrayIncludes ALLOWED_ACTIONS (getProperty (Some payload) ''action'') then
        (createSuccessResponse rt
           (''Action '' @ [CHR 0x27] @ template rt (getProperty (Some payload) ''action'')
              @ [CHR 0x27] @ '' is not in the allow-list. No review comment posted.''),
         [])
      else
        (case new_GitHubApiClient rt of
           Inl configError \<Rightarrow> (Inl configError, [])
         | Inr token \<Rightarrow>
             (case postReviewComment rt token
                     (getProperty (getProperty (Some payload) ''repository'') ''full_name'')
                     (getProperty (Some payload) ''number'') of
                (Inl commentError, calls) \<Rightarrow> (Inl commentError, calls)
              | (Inr u', calls) \<Rightarrow>
                  (createSuccessResponse rt
                     (''Review comment posted successfully for PR #''
                        @ template rt (getProperty (Some payload) ''number'') @ '' by ''
                        @ template rt (getProperty (getProperty (Some payload) ''sender'') ''login'')),
                   calls))))"
  using assms by (simp add: handler_try_def parseBody_def Let_def)

lemma handler_try_error:
  assumes "req_method req = ''POST''"
    and "contentTypeAccepted (req_content_type req)"
    and "handler_try rt req = (Inl e, calls)"
  shows "\<exists>m s c. (e = WebhookError m s c \<or> e = GitHubApiError m s c \<or> e = ConfigurationError m s c)
           \<and> c \<noteq> ''INVALID_CONTENT_TYPE''"
proof (cases "parseBody rt req")
  case (Inl pe)
  with assms have "e = pe" by (simp add: handler_try_def)
  with parseBody_error [OF Inl] show ?thesis by blast
next
  case (Inr payload)
  note parsed = this
  show ?thesis
  proof (cases "validateWebhookPayload payload")
    case (Inl ve)
    with assms parsed have "e = ve" by (simp add: handler_try_def)
    with validate_error [OF Inl] show ?thesis by blast
  next
    case (Inr u)
    show ?thesis
    proof (cases "arrayIncludes ALLOWED_ACTIONS (getProperty (Some payload) ''action'')")
      case False
      with assms parsed Inr show ?thesis
        by (simp add: handler_try_def Let_def createSuccessResponse_def new_Response_def)
    next
      case True
      note allowed = this
      show ?thesis
      proof (cases "new_GitHubApiClient rt")
        case (Inl ce)
        with assms parsed Inr allowed have "e = ce"
          by (simp add: handler_try_def Let_def)
        with Inl show ?thesis
          by (auto simp: new_GitHubApiClient_def split: option.splits if_splits)
      next
        case (Inr token)
        obtain res cs where post: "postComment rt token
            (getProperty (getProperty (Some payload) ''repository'') ''full_name'')
            (getProperty (Some payload) ''number'') generateReviewComment = (res, cs)"
          by (cases "postComment rt token
            (getProperty (getProperty (Some payload) ''repository'') ''full_name'')
            (getProperty (Some payload) ''number'') generateReviewComment")
        show ?thesis
        proof (cases res)
          case (Inl ce)
          with assms parsed \<open>validateWebhookPayload payload = Inr u\<close> allowed Inr post
          have "e = ce"
            by (simp add: handler_try_def Let_def postReviewComment_def)
          with postComment_error [OF post [unfolded Inl]] show ?thesis by blast
        next
          case (Inr u')
          with assms parsed \<open>validateWebhookPayload payload = Inr u\<close> allowed
            \<open>new_GitHubApiClient rt = Inr token\<close> post
          show ?thesis
            by (simp add: handler_try_def Let_def postReviewComment_def
                createSuccessResponse_def new_Response_def)
        qed
      qed
    qed
  qed
qed

lemma handler_try_response:
  assumes "req_method req = ''POST''"
    and "contentTypeAccepted (req_content_type req)"
    and "handler_try rt req = (Inr r, calls)"
  shows "\<exists>m t. resp_body r = SuccessResponse m t"
  using assms
  by (auto simp: handler_try_def Let_def parseBody_def createSuccessResponse_def
      new_Response_def postReviewComment_def
      split: sum.splits if_splits prod.splits)

lemma handler_not_accepted_rejected:
  assumes "req_method req = ''POST''"
    and "\<not> contentTypeAccepted (req_content_type req)"
  shows "handler rt req =
     (Inr \<lparr>resp_status = 400, resp_headers = [(''Content-Type'', ''application/json'')],
           resp_body = ErrorResponse ''INVALID_CONTENT_TYPE''
             ''Content-Type must be application/json'' (toISOString rt)\<rparr>, [])"
  using assms
  by (simp add: handler_def handler_try_def createErrorResponse_def new_Response_def)

lemma example_request_ok:
  "req_method (example_request ct) = ''POST''"
  "req_content_type (example_request ct) = Some ct"
  "trim (req_text (example_request ct)) \<noteq> []"
  by (simp_all add: example_request_def trim_def isWhiteSpace_def)

lemma json_content_type_accepted: "contentTypeAccepted (Some ''application/json'')"
  by (simp add: contentTypeAccepted_def)

section \<open>The claims\<close>

subsection \<open>C1: an opened pull request of a human sender\<close>

text \<open>
  C1. The claim is that a valid "opened" event whose sender is not automated is answered
  with HTTP 200 and without any outbound call. The handler never consults \<open>isBot\<close>: for
  every POST request with an accepted content type whose body parses to a valid payload
  with action "opened", and with a token in the environment, it sends the comment
  request to the downstream API, whoever the sender is.
\<close>

theorem handler_opened_posts_for_any_sender:
  assumes "req_method req = ''POST''"
    and "contentTypeAccepted (req_content_type req)"
    and "trim (req_text req) \<noteq> []"
    and "JSON_parse rt (req_text req) = Inr payload"
    and "validateWebhookPayload payload = Inr ()"
    and "getProperty (Some payload) ''action'' = Some (JString ''opened'')"
    and "env_get rt ''GITHUB_TOKEN'' = Some token"
    and "token \<noteq> []"
  shows "snd (handler rt req) =
     [comment_request rt token
        (getProperty (getProperty (Some payload) ''repository'') ''full_name'')
        (getProperty (Some payload) ''number'') generateReviewComment]"
  using assms(6,7,8)
  by (simp add: handler_def handler_try_valid [OF assms(1-5)] arrayIncludes_allowed
      new_GitHubApiClient_def postReviewComment_def postComment_def split: sum.splits)

text \<open>
  At the event of the human sender \<^verbatim>\<open>alice\<close> of type \<^verbatim>\<open>User\<close>, with the token
  \<^verbatim>\<open>secret\<close> and a downstream answer 201: \<open>isBot\<close> is false for the sender, the handler
  makes one outbound POST, whose body is the serialised review comment, and answers 200
  with the message that the comment was posted.
\<close>

theorem handler_opened_posts_for_any_sender_witness:
  "\<not> isBot \<lparr>user_login = ''alice'', user_type = ''User'', user_id = Finite 1\<rparr>
   \<and> snd (handler
       (example_runtime (Some ''secret'') (example_payload ''opened'' ''alice'' ''User'' (Finite 1))
          (Responded 201 ''Created'' (Inr [])))
       (example_request ''application/json'')) =
     [\<lparr>url = ''https://api.github.com/repos/octo/repo/issues/7/comments'',
       fetch_method = ''POST'',
       fetch_headers = [(''Authorization'', ''Bearer secret''),
                        (''Accept'', ''application/vnd.github.v3+json''),
                        (''Content-Type'', ''application/json''),
                        (''User-Agent'', ''PR-Bot-Reviewer/1.0'')],
       fetch_body = example_stringify (JObject [(''body'', JString
         ''@coderabbitai review\<newline>/gemini review\<newline>@cubic-dev-ai review\<newline>@greptile review'')])\<rparr>]
   \<and> fst (handler
       (example_runtime (Some ''secret'') (example_payload ''opened'' ''alice'' ''User'' (Finite 1))
          (Responded 201 ''Created'' (Inr [])))
       (example_request ''application/json'')) =
     Inr \<lparr>resp_status = 200, resp_headers = [(''Content-Type'', ''application/json'')],
          resp_body = SuccessResponse ''Review comment posted successfully for PR #7 by alice''
            ''2024-01-01T12:00:00.000Z''\<rparr>"
proof -
  let ?payload = "example_payload ''opened'' ''alice'' ''User'' (Finite 1)"
  let ?rt = "example_runtime (Some ''secret'') ?payload (Responded 201 ''Created'' (Inr []))"
  let ?req = "example_request ''application/json''"
  let ?call = "\<lparr>url = ''https://api.github.com/repos/octo/repo/issues/7/comments'',
       fetch_method = ''POST'',
       fetch_headers = [(''Authorization'', ''Bearer secret''),
                        (''Accept'', ''application/vnd.github.v3+json''),
                        (''Content-Type'', ''application/json''),
                        (''User-Agent'', ''PR-Bot-Reviewer/1.0'')],
       fetch_body = example_stringify (JObject [(''body'', JString
         ''@coderabbitai review\<newline>/gemini review\<newline>@cubic-dev-ai review\<newline>@greptile review'')])\<rparr>"
  have human: "\<not> isBot \<lparr>user_login = ''alice'', user_type = ''User'', user_id = Finite 1\<rparr>"
    by (simp add: isBot_def endsWith_def)
  have valid: "validateWebhookPayload ?payload = Inr ()"
    by (simp add: validate_example_payload)
  have parsed: "JSON_parse ?rt (req_text ?req) = Inr ?payload"
    by (simp add: example_runtime_def)
  have accepted: "contentTypeAccepted (req_content_type ?req)"
    by (simp add: example_request_ok json_content_type_accepted)
  have props: "getProperty (Some ?payload) ''action'' = Some (JString ''opened'')"
    "getProperty (Some ?payload) ''number'' = Some (JNumber (Finite 7))"
    "getProperty (getProperty (Some ?payload) ''repository'') ''full_name''
       = Some (JString ''octo/repo'')"
    "getProperty (getProperty (Some ?payload) ''sender'') ''login'' = Some (JString ''alice'')"
    by (simp_all add: example_payload_def)
  have token: "env_get ?rt ''GITHUB_TOKEN'' = Some ''secret''"
    by (simp add: example_runtime_def)
  have request: "comment_request ?rt ''secret'' (Some (JString ''octo/repo''))
      (Some (JNumber (Finite 7))) generateReviewComment = ?call"
    by (simp add: comment_request_def comment_url_def template_def example_runtime_def
        example_ToString_def generateReviewComment_def)
  have calls: "snd (handler ?rt ?req) = [?call]"
    using handler_opened_posts_for_any_sender
      [OF example_request_ok(1) accepted example_request_ok(3) parsed valid props(1) token]
    by (simp add: props request)
  have fetched: "fetch ?rt ?call = Responded 201 ''Created'' (Inr [])"
    by (simp add: example_runtime_def)
  have posted: "postReviewComment ?rt ''secret'' (Some (JString ''octo/repo''))
      (Some (JNumber (Finite 7))) = (Inr (), [?call])"
    by (simp add: postReviewComment_def postComment_def postComment_try_def request fetched)
  have client: "new_GitHubApiClient ?rt = Inr ''secret''"
    by (simp add: new_GitHubApiClient_def token)
  have strings: "template ?rt (Some (JNumber (Finite 7))) = ''7''"
    "template ?rt (Some (JString ''alice'')) = ''alice''"
    "toISOString ?rt = ''2024-01-01T12:00:00.000Z''"
    by (simp_all add: template_def example_runtime_def example_ToString_def)
  have response: "fst (handler ?rt ?req) =
     Inr \<lparr>resp_status = 200, resp_headers = [(''Content-Type'', ''application/json'')],
          resp_body = SuccessResponse ''Review comment posted successfully for PR #7 by alice''
            ''2024-01-01T12:00:00.000Z''\<rparr>"
    unfolding handler_def
      handler_try_valid [OF example_request_ok(1) accepted example_request_ok(3) parsed valid]
    by (simp add: props arrayIncludes_allowed client posted strings
        createSuccessResponse_def new_Response_def)
  from human calls response show ?thesis
    by (intro conjI)
qed

subsection \<open>C2 and C3: the classifier and the composer\<close>

text \<open>
  C2. For every GitHubUser record, \<open>isBot\<close> is true exactly when the type is the string
  "Bot" or the login ends with the suffix "[bot]", both compared character by character
  (so case-sensitively). A login that contains "[bot]" without ending in it, such as
  "[bot]extra", a type "bot" and a login ending in "[BOT]" are all classified as human.
\<close>

theorem isBot_iff_type_or_suffix:
  "isBot user = (user_type user = ''Bot'' \<or> (\<exists>p. user_login user = p @ ''[bot]''))
   \<and> isBot \<lparr>user_login = ''[bot]extra'', user_type = ''User'', user_id = Finite 1\<rparr> = False
   \<and> isBot \<lparr>user_login = ''octocat'', user_type = ''bot'', user_id = Finite 1\<rparr> = False
   \<and> isBot \<lparr>user_login = ''renovate[BOT]'', user_type = ''User'', user_id = Finite 1\<rparr> = False
   \<and> isBot \<lparr>user_login = ''octocat'', user_type = ''Bot'', user_id = Finite 1\<rparr> = True
   \<and> isBot \<lparr>user_login = ''dependabot[bot]'', user_type = ''User'', user_id = Finite 1\<rparr> = True"
proof -
  have general: "isBot user = (user_type user = ''Bot'' \<or> (\<exists>p. user_login user = p @ ''[bot]''))"
    by (simp add: isBot_def endsWith_iff_append)
  show ?thesis
    by (rule conjI, rule general) (simp add: isBot_def endsWith_def)
qed

text \<open>
  C3. The composed review comment is the constant string of the four trigger lines in
  their order, separated by single newlines, with no newline at the end; the function has
  no argument, so nothing of the request can change it.
\<close>

theorem generateReviewComment_exact:
  "generateReviewComment =
     ''@coderabbitai review\<newline>/gemini review\<newline>@cubic-dev-ai review\<newline>@greptile review''
   \<and> last generateReviewComment \<noteq> CHR ''\<newline>''
   \<and> length (filter (\<lambda>c. c = CHR ''\<newline>'') generateReviewComment) = 3"
  by (simp add: generateReviewComment_def)

subsection \<open>C4: the order of the checks\<close>

text \<open>
  C4. The validator runs its checks in the listed order and stops at the first failure:
  its result is the error of the first check of the list that fails, the codes of the list
  are the ten codes in their listed order, each with status 400; a check that fails while
  all the checks before it pass decides the error, so a check that is the only one to fail
  does; and an object with neither action nor sender is rejected with MISSING_ACTION.
\<close>

theorem validate_checks_in_order:
  "validateWebhookPayload payload = firstFailure validationChecks payload
   \<and> map (\<lambda>c. (errorCode (snd c), statusCode (snd c))) validationChecks =
       [(''INVALID_PAYLOAD_TYPE'', 400), (''MISSING_ACTION'', 400),
        (''MISSING_PULL_REQUEST'', 400), (''MISSING_REPOSITORY'', 400),
        (''MISSING_NUMBER'', 400), (''MISSING_SENDER'', 400),
        (''MISSING_SENDER_LOGIN'', 400), (''MISSING_SENDER_TYPE'', 400),
        (''MISSING_SENDER_ID'', 400), (''MISSING_REPO_FULL_NAME'', 400)]
   \<and> (\<forall>i < length validationChecks.
         fst (validationChecks ! i) payload
         \<and> (\<forall>c \<in> set (take i validationChecks). \<not> fst c payload)
         \<longrightarrow> validateWebhookPayload payload = Inl (snd (validationChecks ! i)))
   \<and> (\<forall>i < length validationChecks.
         fst (validationChecks ! i) payload
         \<and> (\<forall>j < length validationChecks. j \<noteq> i \<longrightarrow> \<not> fst (validationChecks ! j) payload)
         \<longrightarrow> validateWebhookPayload payload = Inl (snd (validationChecks ! i)))
   \<and> validateWebhookPayload (JObject []) =
       Inl (WebhookError ''Webhook payload missing required field: action''
              400 ''MISSING_ACTION'')"
proof (intro conjI allI impI)
  show "validateWebhookPayload payload = firstFailure validationChecks payload"
    by (rule validate_eq_firstFailure)
next
  fix i
  assume "i < length validationChecks"
    and "fst (validationChecks ! i) payload
         \<and> (\<forall>c \<in> set (take i validationChecks). \<not> fst c payload)"
  then show "validateWebhookPayload payload = Inl (snd (validationChecks ! i))"
    by (simp add: validate_eq_firstFailure firstFailure_nth)
next
  fix i
  assume i: "i < length validationChecks"
    and "fst (validationChecks ! i) payload
         \<and> (\<forall>j < length validationChecks. j \<noteq> i \<longrightarrow> \<not> fst (validationChecks ! j) payload)"
  then have "fst (validationChecks ! i) payload"
    and "\<forall>c \<in> set (take i validationChecks). \<not> fst c payload"
    using only_failure_is_first [OF i] by blast+
  with i show "validateWebhookPayload payload = Inl (snd (validationChecks ! i))"
    by (simp add: validate_eq_firstFailure firstFailure_nth)
qed (rule checks_codes validate_empty_object)+

text \<open>
  At a payload whose action, number, pull_request and repository pass and which has no
  sender (and no repository name either): the sixth check is the first to fail, and the
  error is MISSING_SENDER.
\<close>

theorem validate_checks_in_order_witness:
  "validateWebhookPayload
     (JObject [(''action'', JString ''opened''), (''number'', JNumber (Finite 7)),
               (''pull_request'', JObject []), (''repository'', JObject [])])
   = Inl (WebhookError ''Webhook payload missing required field: sender'' 400 ''MISSING_SENDER'')"
proof -
  let ?p = "JObject [(''action'', JString ''opened''), (''number'', JNumber (Finite 7)),
               (''pull_request'', JObject []), (''repository'', JObject [])]"
  have "\<forall>i < length validationChecks.
         fst (validationChecks ! i) ?p
         \<and> (\<forall>c \<in> set (take i validationChecks). \<not> fst c ?p)
         \<longrightarrow> validateWebhookPayload ?p = Inl (snd (validationChecks ! i))"
    using validate_checks_in_order [of ?p] by blast
  then have "5 < length validationChecks \<longrightarrow>
         fst (validationChecks ! 5) ?p
         \<and> (\<forall>c \<in> set (take 5 validationChecks). \<not> fst c ?p)
         \<longrightarrow> validateWebhookPayload ?p = Inl (snd (validationChecks ! 5))"
    by blast
  then show ?thesis
    by (simp add: validationChecks_def)
qed

subsection \<open>C5: the action check\<close>

text \<open>
  C5 as stated fails: a payload whose action is the empty string, a string, is rejected
  with MISSING_ACTION, all its other fields being valid.
\<close>

theorem missing_action_counterexample:
  "typeof (getProperty (Some (example_payload [] ''octocat'' ''User'' (Finite 1))) ''action'')
     = ''string''
   \<and> validateWebhookPayload (example_payload [] ''octocat'' ''User'' (Finite 1)) =
       Inl (WebhookError ''Webhook payload missing required field: action''
              400 ''MISSING_ACTION'')"
  by (simp add: validateWebhookPayload_def example_payload_def)

text \<open>
  C5, amended. For every payload that is a non-null object, the validator fails with
  MISSING_ACTION if and only if the action field is absent, is not a string, or is the
  empty string: exactly when it is not a non-empty string.
\<close>

theorem missing_action_iff:
  assumes "truthy (Some payload)" and "typeof (Some payload) = ''object''"
  shows "validateWebhookPayload payload =
           Inl (WebhookError ''Webhook payload missing required field: action''
                  400 ''MISSING_ACTION'')
         \<longleftrightarrow> \<not> (\<exists>s. getProperty (Some payload) ''action'' = Some (JString s) \<and> s \<noteq> [])"
proof -
  have "(\<exists>s. getProperty (Some payload) ''action'' = Some (JString s) \<and> s \<noteq> [])
        \<longleftrightarrow> truthy (getProperty (Some payload) ''action'')
            \<and> typeof (getProperty (Some payload) ''action'') = ''string''"
    by (simp add: truthy_string_iff)
  then show ?thesis
    using assms by (simp add: validateWebhookPayload_def Let_def)
qed

text \<open>
  At an object whose action is the number 1 the error is MISSING_ACTION; at the example
  event with action "opened" it is not.
\<close>

theorem missing_action_iff_witness:
  "validateWebhookPayload (JObject [(''action'', JNumber (Finite 1))]) =
     Inl (WebhookError ''Webhook payload missing required field: action'' 400 ''MISSING_ACTION'')
   \<and> validateWebhookPayload (example_payload ''opened'' ''octocat'' ''User'' (Finite 1)) \<noteq>
     Inl (WebhookError ''Webhook payload missing required field: action'' 400 ''MISSING_ACTION'')"
  using missing_action_iff [of "JObject [(''action'', JNumber (Finite 1))]"]
    missing_action_iff [of "example_payload ''opened'' ''octocat'' ''User'' (Finite 1)"]
  by (simp add: example_payload_def)

subsection \<open>C6: the sender of an accepted payload\<close>

text \<open>
  C6 as stated fails: the validator accepts a payload whose sender id is 1.5, a number
  that is not an integer.
\<close>

theorem accepted_sender_counterexample:
  "validateWebhookPayload (example_payload ''opened'' ''octocat'' ''User'' (Finite (3 / 2)))
     = Inr ()
   \<and> getProperty (getProperty (Some (example_payload ''opened'' ''octocat'' ''User''
         (Finite (3 / 2)))) ''sender'') ''id'' = Some (JNumber (Finite (3 / 2)))
   \<and> \<not> spec_isFiniteInteger (Finite (3 / 2))"
proof -
  have "\<lfloor>3 / 2 :: rat\<rfloor> = 1"
    by (simp add: floor_eq_iff)
  then have "\<not> spec_isFiniteInteger (Finite (3 / 2))"
    by simp
  then show ?thesis
    by (simp add: validateWebhookPayload_def example_payload_def)
qed

text \<open>
  C6, amended. Every payload accepted by the validator has a sender whose login and type
  are non-empty strings and whose id is a number (a value of JavaScript type number, not
  necessarily an integer).
\<close>

theorem accepted_sender_shape:
  assumes "validateWebhookPayload payload = Inr ()"
  shows "\<exists>login type ident.
           getProperty (getProperty (Some payload) ''sender'') ''login'' = Some (JString login)
           \<and> login \<noteq> []
           \<and> getProperty (getProperty (Some payload) ''sender'') ''type'' = Some (JString type)
           \<and> type \<noteq> []
           \<and> getProperty (getProperty (Some payload) ''sender'') ''id'' = Some (JNumber ident)"
proof -
  let ?sender = "getProperty (Some payload) ''sender''"
  from assms have
    l: "truthy (getProperty ?sender ''login'') \<and> typeof (getProperty ?sender ''login'') = ''string''"
    and t: "truthy (getProperty ?sender ''type'') \<and> typeof (getProperty ?sender ''type'') = ''string''"
    and i: "typeof (getProperty ?sender ''id'') = ''number''"
    by (simp_all add: validateWebhookPayload_def Let_def split: if_splits)
  from l obtain login where "getProperty ?sender ''login'' = Some (JString login)" "login \<noteq> []"
    unfolding truthy_string_iff by blast
  moreover from t obtain type where "getProperty ?sender ''type'' = Some (JString type)" "type \<noteq> []"
    unfolding truthy_string_iff by blast
  moreover from i obtain ident where "getProperty ?sender ''id'' = Some (JNumber ident)"
    unfolding typeof_number_iff by blast
  ultimately show ?thesis by blast
qed

text \<open>The example event of \<^verbatim>\<open>octocat\<close> is accepted, and its sender has that shape.\<close>

theorem accepted_sender_shape_witness:
  "\<exists>login type ident.
     getProperty (getProperty (Some (example_payload ''opened'' ''octocat'' ''User'' (Finite 1)))
       ''sender'') ''login'' = Some (JString login)
     \<and> login \<noteq> []
     \<and> getProperty (getProperty (Some (example_payload ''opened'' ''octocat'' ''User'' (Finite 1)))
       ''sender'') ''type'' = Some (JString type)
     \<and> type \<noteq> []
     \<and> getProperty (getProperty (Some (example_payload ''opened'' ''octocat'' ''User'' (Finite 1)))
       ''sender'') ''id'' = Some (JNumber ident)"
  by (rule accepted_sender_shape) (simp add: validate_example_payload)

subsection \<open>C7: the mapping of downstream failures\<close>

text \<open>
  C7. When the downstream API answers the comment request with a status outside 200 to
  299 and the body of the answer has been read, \<open>postComment\<close> fails with a GitHubApiError
  whose code and status are those of the specification's table for that status and body,
  after having sent that one request.
\<close>

theorem postComment_maps_status:
  assumes "fetch rt (comment_request rt token repo issueNumber body)
             = Responded st stText (Inr errorText)"
    and "\<not> (200 \<le> st \<and> st \<le> 299)"
  shows "\<exists>m. postComment rt token repo issueNumber body =
           (Inl (GitHubApiError m (snd (spec_downstream_error_table st errorText))
                   (fst (spec_downstream_error_table st errorText))),
            [comment_request rt token repo issueNumber body])"
proof -
  from postComment_try_not_ok [OF assms] obtain m where
    "postComment_try rt token repo issueNumber body =
       Inl (GitHubApiError m (snd (spec_downstream_error_table st errorText))
              (fst (spec_downstream_error_table st errorText)))" ..
  then show ?thesis
    by (simp add: postComment_def postComment_catch_def)
qed

text \<open>A 403 whose body speaks of the rate limit becomes GITHUB_RATE_LIMIT with status 429.\<close>

theorem postComment_maps_status_witness:
  "\<exists>m. postComment
          (example_runtime (Some ''t'') JNull
             (Responded 403 ''Forbidden'' (Inr ''API rate limit exceeded'')))
          ''t'' (Some (JString ''octo/repo'')) (Some (JNumber (Finite 7))) ''hello''
        = (Inl (GitHubApiError m 429 ''GITHUB_RATE_LIMIT''),
           [comment_request
              (example_runtime (Some ''t'') JNull
                 (Responded 403 ''Forbidden'' (Inr ''API rate limit exceeded'')))
              ''t'' (Some (JString ''octo/repo'')) (Some (JNumber (Finite 7))) ''hello''])"
  using postComment_maps_status
    [of "example_runtime (Some ''t'') JNull
           (Responded 403 ''Forbidden'' (Inr ''API rate limit exceeded''))"
        "''t''" "Some (JString ''octo/repo'')" "Some (JNumber (Finite 7))" "''hello''"
        403 "''Forbidden''" "''API rate limit exceeded''"]
  by (simp add: example_runtime_def spec_downstream_error_table_def)

subsection \<open>C8: the missing token\<close>

text \<open>
  C8. If GITHUB_TOKEN is absent from the environment, then for every POST request with an
  accepted content type whose body parses to a valid payload with action "opened", the
  handler answers HTTP 500 with the code MISSING_GITHUB_TOKEN and makes no outbound call.
\<close>

theorem handler_missing_token:
  assumes "req_method req = ''POST''"
    and "contentTypeAccepted (req_content_type req)"
    and "trim (req_text req) \<noteq> []"
    and "JSON_parse rt (req_text req) = Inr payload"
    and "validateWebhookPayload payload = Inr ()"
    and "getProperty (Some payload) ''action'' = Some (JString ''opened'')"
    and "env_get rt ''GITHUB_TOKEN'' = None"
  shows "handler rt req =
     (Inr \<lparr>resp_status = 500, resp_headers = [(''Content-Type'', ''application/json'')],
           resp_body = ErrorResponse ''MISSING_GITHUB_TOKEN''
             ''GitHub token not found in environment variables'' (toISOString rt)\<rparr>,
      [])"
  using assms(6,7)
  by (simp add: handler_def handler_try_valid [OF assms(1-5)] arrayIncludes_allowed
      new_GitHubApiClient_def handler_catch_def createErrorResponse_def new_Response_def)

text \<open>The example event of a bot, opened, in a runtime without the token.\<close>

theorem handler_missing_token_witness:
  "handler (example_runtime None (example_payload ''opened'' ''dependabot[bot]'' ''Bot'' (Finite 1))
              (Responded 201 ''Created'' (Inr [])))
     (example_request ''application/json'') =
   (Inr \<lparr>resp_status = 500, resp_headers = [(''Content-Type'', ''application/json'')],
         resp_body = ErrorResponse ''MISSING_GITHUB_TOKEN''
           ''GitHub token not found in environment variables'' ''2024-01-01T12:00:00.000Z''\<rparr>,
    [])"
  using handler_missing_token
    [of "example_request ''application/json''"
        "example_runtime None (example_payload ''opened'' ''dependabot[bot]'' ''Bot'' (Finite 1))
           (Responded 201 ''Created'' (Inr []))"
        "example_payload ''opened'' ''dependabot[bot]'' ''Bot'' (Finite 1)"]
  by (simp add: example_request_ok json_content_type_accepted validate_example_payload)
     (simp add: example_runtime_def example_payload_def)

subsection \<open>C9: actions outside the allow-list\<close>

text \<open>
  C9. For every POST request with an accepted content type whose body parses to a valid
  payload with an action other than "opened", the handler answers HTTP 200 with a success
  body whose message says that the action is not in the allow-list and that no review
  comment was posted, and makes no outbound call. The answer is fixed by the action
  alone: the sender is not looked at.
\<close>

theorem handler_other_action:
  assumes "req_method req = ''POST''"
    and "contentTypeAccepted (req_content_type req)"
    and "trim (req_text req) \<noteq> []"
    and "JSON_parse rt (req_text req) = Inr payload"
    and "validateWebhookPayload payload = Inr ()"
    and "getProperty (Some payload) ''action'' = Some (JString action)"
    and "action \<noteq> ''opened''"
  shows "handler rt req =
     (Inr \<lparr>resp_status = 200, resp_headers = [(''Content-Type'', ''application/json'')],
           resp_body = SuccessResponse
             (''Action '' @ [CHR 0x27] @ action @ [CHR 0x27]
                @ '' is not in the allow-list. No review comment posted.'')
             (toISOString rt)\<rparr>,
      [])"
  using assms(6,7)
  by (simp add: handler_def handler_try_valid [OF assms(1-5)] arrayIncludes_allowed
      createSuccessResponse_def new_Response_def template_def)

text \<open>The example event of a bot with action "closed".\<close>

theorem handler_other_action_witness:
  "handler (example_runtime None (example_payload ''closed'' ''dependabot[bot]'' ''Bot'' (Finite 1))
              (Rejected ''TypeError'' ''fetch failed''))
     (example_request ''application/json'') =
   (Inr \<lparr>resp_status = 200, resp_headers = [(''Content-Type'', ''application/json'')],
         resp_body = SuccessResponse
           (''Action '' @ [CHR 0x27] @ ''closed'' @ [CHR 0x27]
              @ '' is not in the allow-list. No review comment posted.'')
           ''2024-01-01T12:00:00.000Z''\<rparr>,
    [])"
  using handler_other_action
    [of "example_request ''application/json''"
        "example_runtime None (example_payload ''closed'' ''dependabot[bot]'' ''Bot'' (Finite 1))
           (Rejected ''TypeError'' ''fetch failed'')"
        "example_payload ''closed'' ''dependabot[bot]'' ''Bot'' (Finite 1)" "''closed''"]
  by (simp add: example_request_ok json_content_type_accepted validate_example_payload)
     (simp add: example_runtime_def example_payload_def)

subsection \<open>C10: the content-type gate\<close>

text \<open>
  C10. For every POST request, the handler answers with the error code
  INVALID_CONTENT_TYPE exactly when the Content-Type header is absent or its value does
  not contain the text "application/json" somewhere, and that answer is then HTTP 400
  with no outbound call. A request whose header contains that text anywhere passes the
  gate.
\<close>

theorem content_type_gate:
  assumes "req_method req = ''POST''"
  shows "((\<exists>r calls m t. handler rt req = (Inr r, calls)
             \<and> resp_body r = ErrorResponse ''INVALID_CONTENT_TYPE'' m t)
          \<longleftrightarrow> \<not> (\<exists>ps ss. req_content_type req = Some (ps @ ''application/json'' @ ss)))
       \<and> (handler rt req =
            (Inr \<lparr>resp_status = 400, resp_headers = [(''Content-Type'', ''application/json'')],
                  resp_body = ErrorResponse ''INVALID_CONTENT_TYPE''
                    ''Content-Type must be application/json'' (toISOString rt)\<rparr>, [])
          \<longleftrightarrow> \<not> (\<exists>ps ss. req_content_type req = Some (ps @ ''application/json'' @ ss)))"
proof (cases "contentTypeAccepted (req_content_type req)")
  case True
  have "\<not> (\<exists>r calls m t. handler rt req = (Inr r, calls)
             \<and> resp_body r = ErrorResponse ''INVALID_CONTENT_TYPE'' m t)"
  proof
    assume "\<exists>r calls m t. handler rt req = (Inr r, calls)
             \<and> resp_body r = ErrorResponse ''INVALID_CONTENT_TYPE'' m t"
    then obtain r calls m t where h: "handler rt req = (Inr r, calls)"
      and b: "resp_body r = ErrorResponse ''INVALID_CONTENT_TYPE'' m t" by blast
    obtain res cs where ht: "handler_try rt req = (res, cs)"
      by (cases "handler_try rt req")
    show False
    proof (cases res)
      case (Inl e)
      from handler_try_error [OF assms True ht [unfolded Inl]] obtain m' s c where
        "e = WebhookError m' s c \<or> e = GitHubApiError m' s c \<or> e = ConfigurationError m' s c"
        and "c \<noteq> ''INVALID_CONTENT_TYPE''" by blast
      with h b ht Inl show False
        by (auto simp: handler_def handler_catch_def createErrorResponse_def new_Response_def
            split: if_splits)
    next
      case (Inr r')
      from handler_try_response [OF assms True ht [unfolded Inr]] obtain m' t' where
        "resp_body r' = SuccessResponse m' t'" by blast
      with h b ht Inr show False
        by (auto simp: handler_def)
    qed
  qed
  moreover have "handler rt req \<noteq>
            (Inr \<lparr>resp_status = 400, resp_headers = [(''Content-Type'', ''application/json'')],
                  resp_body = ErrorResponse ''INVALID_CONTENT_TYPE''
                    ''Content-Type must be application/json'' (toISOString rt)\<rparr>, [])"
    using calculation by auto
  ultimately show ?thesis
    using True unfolding contentTypeAccepted_iff by blast
next
  case False
  have rej: "handler rt req =
            (Inr \<lparr>resp_status = 400, resp_headers = [(''Content-Type'', ''application/json'')],
                  resp_body = ErrorResponse ''INVALID_CONTENT_TYPE''
                    ''Content-Type must be application/json'' (toISOString rt)\<rparr>, [])"
    using assms False by (rule handler_not_accepted_rejected)
  then have "\<exists>r calls m t. handler rt req = (Inr r, calls)
             \<and> resp_body r = ErrorResponse ''INVALID_CONTENT_TYPE'' m t"
    by simp
  with rej show ?thesis
    using False unfolding contentTypeAccepted_iff by blast
qed

text \<open>
  The JSON media types \<^verbatim>\<open>text/json\<close> and \<^verbatim>\<open>application/vnd.api+json\<close> and a missing
  header are rejected; \<^verbatim>\<open>text/plain; note=application/json\<close> is not.
\<close>

theorem content_type_gate_witness:
  "handler (example_runtime None JNull (Rejected [] [])) (example_request ''text/json'') =
     (Inr \<lparr>resp_status = 400, resp_headers = [(''Content-Type'', ''application/json'')],
           resp_body = ErrorResponse ''INVALID_CONTENT_TYPE''
             ''Content-Type must be application/json'' ''2024-01-01T12:00:00.000Z''\<rparr>, [])
   \<and> handler (example_runtime None JNull (Rejected [] []))
       (example_request ''application/vnd.api+json'') =
     (Inr \<lparr>resp_status = 400, resp_headers = [(''Content-Type'', ''application/json'')],
           resp_body = ErrorResponse ''INVALID_CONTENT_TYPE''
             ''Content-Type must be application/json'' ''2024-01-01T12:00:00.000Z''\<rparr>, [])
   \<and> handler (example_runtime None JNull (Rejected [] []))
       \<lparr>req_method = ''POST'', req_content_type = None, req_text = ''{...}''\<rparr> =
     (Inr \<lparr>resp_status = 400, resp_headers = [(''Content-Type'', ''application/json'')],
           resp_body = ErrorResponse ''INVALID_CONTENT_TYPE''
             ''Content-Type must be application/json'' ''2024-01-01T12:00:00.000Z''\<rparr>, [])
   \<and> handler (example_runtime None JNull (Rejected [] []))
       (example_request ''text/plain; note=application/json'') \<noteq>
     (Inr \<lparr>resp_status = 400, resp_headers = [(''Content-Type'', ''application/json'')],
           resp_body = ErrorResponse ''INVALID_CONTENT_TYPE''
             ''Content-Type must be application/json'' ''2024-01-01T12:00:00.000Z''\<rparr>, [])"
proof -
  let ?rt = "example_runtime None JNull (Rejected [] [])"
  have ts: "toISOString ?rt = ''2024-01-01T12:00:00.000Z''"
    by (simp add: example_runtime_def)
  have no: "\<not> stringIncludes ''text/json'' ''application/json''"
    "\<not> stringIncludes ''application/vnd.api+json'' ''application/json''"
    and yes: "stringIncludes ''text/plain; note=application/json'' ''application/json''"
    by simp_all
  show ?thesis
    using content_type_gate [of "example_request ''text/json''" ?rt]
      content_type_gate [of "example_request ''application/vnd.api+json''" ?rt]
      content_type_gate [of "\<lparr>req_method = ''POST'', req_content_type = None, req_text = ''{...}''\<rparr>" ?rt]
      content_type_gate [of "example_request ''text/plain; note=application/json''" ?rt]
      no yes
    unfolding stringIncludes_iff_append
    by (simp add: example_request_ok ts)
qed

end
